theory Spec2Isabelle
  imports Main "HOL-Library.Multiset"
begin

section \<open>JavaScript strings\<close>

text \<open>
  A JavaScript string is a sequence of UTF-16 code units. A code unit is modelled as its
  number, so \<open>length\<close> counts what \<open>String.prototype.length\<close> counts. The literal
  \<open>lit ''abc''\<close> is the string of the code units of the ASCII text \<open>abc\<close>.
\<close>

type_synonym jsstring = "nat list"

definition lit :: "string \<Rightarrow> jsstring" where
  "lit s = map of_char s"

text \<open>\<open>Array.prototype.join\<close> on an array of strings.\<close>

fun join :: "jsstring \<Rightarrow> jsstring list \<Rightarrow> jsstring" where
  "join sep [] = []"
| "join sep [x] = x"
| "join sep (x # y # ys) = x @ sep @ join sep (y # ys)"

text \<open>\<open>String.prototype.split\<close> with a separator of one code unit: the empty string
  splits into one empty piece.\<close>

fun split :: "nat \<Rightarrow> jsstring \<Rightarrow> jsstring list" where
  "split sep [] = [[]]"
| "split sep (c # cs) =
     (if c = sep then [] # split sep cs
      else (case split sep cs of p # ps \<Rightarrow> (c # p) # ps | [] \<Rightarrow> [[c]]))"

text \<open>\<open>slice(a, b)\<close> for constant bounds \<open>0 \<le> a \<le> b\<close>; both bounds are clamped to the
  length of the string, as \<open>take\<close> and \<open>drop\<close> do.\<close>

definition slice :: "nat \<Rightarrow> nat \<Rightarrow> jsstring \<Rightarrow> jsstring" where
  "slice a b s = take (b - a) (drop a s)"

definition startsWith :: "jsstring \<Rightarrow> jsstring \<Rightarrow> bool" where
  "startsWith s p = (take (length p) s = p)"

fun includes_str :: "jsstring \<Rightarrow> jsstring \<Rightarrow> bool" where
  "includes_str [] p = (p = [])"
| "includes_str (c # cs) p = (startsWith (c # cs) p \<or> includes_str cs p)"

text \<open>The code units that \<open>trim\<close> and \<open>trimEnd\<close> strip: ECMAScript WhiteSpace and
  LineTerminator.\<close>

definition isWhiteSpace :: "nat \<Rightarrow> bool" where
  "isWhiteSpace c =
     (c = 0x09 \<or> c = 0x0A \<or> c = 0x0B \<or> c = 0x0C \<or> c = 0x0D \<or> c = 0x20 \<or> c = 0xA0
      \<or> c = 0x1680 \<or> (0x2000 \<le> c \<and> c \<le> 0x200A) \<or> c = 0x2028 \<or> c = 0x2029
      \<or> c = 0x202F \<or> c = 0x205F \<or> c = 0x3000 \<or> c = 0xFEFF)"

definition trimEnd :: "jsstring \<Rightarrow> jsstring" where
  "trimEnd s = rev (dropWhile isWhiteSpace (rev s))"

definition trim :: "jsstring \<Rightarrow> jsstring" where
  "trim s = trimEnd (dropWhile isWhiteSpace s)"

text \<open>\<open>toLowerCase\<close> on the ASCII range. Its one call site applies it to a string that
  matched \<open>UUID_DASHED\<close>, whose code units are hexadecimal digits and dashes.\<close>

definition toLowerCase :: "jsstring \<Rightarrow> jsstring" where
  "toLowerCase s = map (\<lambda>c. if 0x41 \<le> c \<and> c \<le> 0x5A then c + 0x20 else c) s"

section \<open>Reference normalizer (notion/url-parser.ts)\<close>

text \<open>The character class \<open>[0-9a-f]\<close> under the flag \<open>i\<close>.\<close>

definition isHex :: "nat \<Rightarrow> bool" where
  "isHex c = ((0x30 \<le> c \<and> c \<le> 0x39) \<or> (0x61 \<le> c \<and> c \<le> 0x66) \<or> (0x41 \<le> c \<and> c \<le> 0x46))"

text \<open>The two regular expressions are sequences of hexadecimal runs \<open>[0-9a-f]{n}\<close> and
  dashes, anchored at both ends.\<close>

datatype atom = Hex nat | Dash

fun matches :: "atom list \<Rightarrow> jsstring \<Rightarrow> bool" where
  "matches [] s = (s = [])"
| "matches (Hex n # p) s = (n \<le> length s \<and> list_all isHex (take n s) \<and> matches p (drop n s))"
| "matches (Dash # p) s = (case s of [] \<Rightarrow> False | c # r \<Rightarrow> c = 0x2D \<and> matches p r)"

definition UUID_BARE :: "jsstring \<Rightarrow> bool" where
  "UUID_BARE s = matches [Hex 32] s"

definition UUID_DASHED :: "jsstring \<Rightarrow> bool" where
  "UUID_DASHED s = matches [Hex 8, Dash, Hex 4, Dash, Hex 4, Dash, Hex 4, Dash, Hex 12] s"

definition toDashedUuid :: "jsstring \<Rightarrow> jsstring" where
  "toDashedUuid hex =
     join (lit ''-'')
       [slice 0 8 hex, slice 8 12 hex, slice 12 16 hex, slice 16 20 hex, slice 20 32 hex]"

text \<open>A pattern anchored only at the end of the string, with one capture group around
  the whole of it: the match, if any, is the suffix of the pattern's fixed length.\<close>

definition matchAtEnd :: "atom list \<Rightarrow> nat \<Rightarrow> jsstring \<Rightarrow> jsstring option" where
  "matchAtEnd p n s =
     (let t = drop (length s - n) s
      in if n \<le> length s \<and> matches p t then Some t else None)"

definition extractIdFromPath :: "jsstring \<Rightarrow> jsstring option" where
  "extractIdFromPath path =
     (let clean = hd (split 0x23 (hd (split 0x3F path)));
          segments = filter (\<lambda>x. x \<noteq> []) (split 0x2F clean)
      in if segments = [] then None
         else
           (let l = last segments
            in case matchAtEnd [Hex 32] 32 l of
                 Some m \<Rightarrow> Some m
               | None \<Rightarrow>
                   (case matchAtEnd
                           [Hex 8, Dash, Hex 4, Dash, Hex 4, Dash, Hex 4, Dash, Hex 12] 36 l of
                      Some m \<Rightarrow> Some (filter (\<lambda>c. c \<noteq> 0x2D) m)
                    | None \<Rightarrow> None)))"

text \<open>The four \<open>throw new Error(...)\<close> of \<open>parseNotionReference\<close>, each with the trimmed
  input its message quotes.\<close>

datatype parse_error =
    InvalidURL jsstring
  | NotANotionURL jsstring
  | NoIdInURL jsstring
  | UnrecognizedReference jsstring

text \<open>What the code reads of a parsed \<open>URL\<close> object.\<close>

record url =
  hostname :: jsstring
  pathname :: jsstring

text \<open>The platform's \<open>new URL(...)\<close> is a parameter of the model: \<open>None\<close> when the
  constructor throws.\<close>

definition parseNotionReference ::
    "(jsstring \<Rightarrow> url option) \<Rightarrow> jsstring \<Rightarrow> parse_error + jsstring" where
  "parseNotionReference newURL input =
     (let trimmed = trim input
      in if UUID_BARE trimmed then Inr (toDashedUuid trimmed)
         else if UUID_DASHED trimmed then Inr (toLowerCase trimmed)
         else if startsWith trimmed (lit ''http://'') \<or> startsWith trimmed (lit ''https://'')
         then (case newURL trimmed of
                 None \<Rightarrow> Inl (InvalidURL trimmed)
               | Some u \<Rightarrow>
                   if \<not> includes_str (hostname u) (lit ''notion'') then Inl (NotANotionURL trimmed)
                   else (case extractIdFromPath (pathname u) of
                           None \<Rightarrow> Inl (NoIdInURL trimmed)
                         | Some hex \<Rightarrow> Inr (toDashedUuid hex)))
         else Inl (UnrecognizedReference trimmed))"

section \<open>Rich-text renderer (converters/rich-text.ts)\<close>

record annotations =
  bold :: bool
  italic :: bool
  strikethrough :: bool
  underline :: bool
  code :: bool
  color :: jsstring

text \<open>The mention types the switch of \<open>renderMention\<close> names, and one constructor for
  every other type (its \<open>default\<close> arm). A date mention carries \<open>start\<close> and the
  nullable \<open>end\<close>.\<close>

datatype mention =
    PageMention
  | DatabaseMention
  | UserMention
  | DateMention jsstring "jsstring option"
  | LinkPreviewMention
  | OtherMention jsstring

datatype rich_text_type =
    TextItem jsstring
  | MentionItem mention
  | EquationItem jsstring

record rich_text_item =
  item_type :: rich_text_type
  annotations :: annotations
  plain_text :: jsstring
  href :: "jsstring option"

text \<open>JavaScript truthiness of a \<open>string | null\<close>: \<open>null\<close> and the empty string are
  falsy.\<close>

definition truthy :: "jsstring option \<Rightarrow> bool" where
  "truthy v = (case v of None \<Rightarrow> False | Some s \<Rightarrow> s \<noteq> [])"

text \<open>In the source file the template literal of the date range holds, between the two
  spaces, the three code units U+00E2, U+2020, U+2019.\<close>

definition renderMention :: "rich_text_item \<Rightarrow> jsstring" where
  "renderMention item =
     (case item_type item of
        MentionItem m \<Rightarrow>
          (case m of
             DateMention start end_bound \<Rightarrow>
               (if truthy end_bound
                then start @ lit '' '' @ [0xE2, 0x2020, 0x2019] @ lit '' '' @ the end_bound
                else start)
           | _ \<Rightarrow> plain_text item)
      | _ \<Rightarrow> plain_text item)"

definition applyAnnotations :: "jsstring \<Rightarrow> annotations \<Rightarrow> jsstring" where
  "applyAnnotations text ann =
     (if text = [] then text
      else if code ann then [0x60] @ text @ [0x60]
      else
        (let t1 = (if strikethrough ann then lit ''~~'' @ text @ lit ''~~'' else text);
             t2 = (if bold ann \<and> italic ann then lit ''***'' @ t1 @ lit ''***''
                   else if bold ann then lit ''**'' @ t1 @ lit ''**''
                   else if italic ann then lit ''*'' @ t1 @ lit ''*''
                   else t1)
         in if underline ann then lit ''<u>'' @ t2 @ lit ''</u>'' else t2))"

definition renderRichTextItem :: "rich_text_item \<Rightarrow> jsstring" where
  "renderRichTextItem item =
     (case item_type item of
        EquationItem expression \<Rightarrow> lit ''$'' @ expression @ lit ''$''
      | _ \<Rightarrow>
          (let text0 = (case item_type item of
                          TextItem content \<Rightarrow> content
                        | _ \<Rightarrow> renderMention item);
               text1 = applyAnnotations text0 (annotations item)
           in if truthy (href item)
              then lit ''['' @ text1 @ lit ''](''  @ the (href item) @ lit '')''
              else text1))"

definition renderRichText :: "rich_text_item list \<Rightarrow> jsstring" where
  "renderRichText items = join [] (map renderRichTextItem items)"

section \<open>Block renderer (converters/blocks.ts)\<close>

text \<open>\<open>encodeURIComponent\<close>: every code unit outside the unreserved set is replaced by
  the percent-escaped UTF-8 bytes of its code point; an unpaired surrogate makes it throw
  \<open>URIError\<close>.\<close>

datatype js_error = URIError

definition uriUnreserved :: "nat \<Rightarrow> bool" where
  "uriUnreserved c =
     ((0x41 \<le> c \<and> c \<le> 0x5A) \<or> (0x61 \<le> c \<and> c \<le> 0x7A) \<or> (0x30 \<le> c \<and> c \<le> 0x39)
      \<or> c \<in> set (lit ''-_.!~*()'') \<or> c = 0x27)"

definition hexDigit :: "nat \<Rightarrow> nat" where
  "hexDigit n = (if n < 10 then 0x30 + n else 0x37 + n)"

definition percentEscape :: "nat \<Rightarrow> jsstring" where
  "percentEscape b = [0x25, hexDigit (b div 16), hexDigit (b mod 16)]"

definition utf8 :: "nat \<Rightarrow> nat list" where
  "utf8 cp =
     (if cp < 0x80 then [cp]
      else if cp < 0x800 then [0xC0 + cp div 0x40, 0x80 + cp mod 0x40]
      else if cp < 0x10000
      then [0xE0 + cp div 0x1000, 0x80 + (cp div 0x40) mod 0x40, 0x80 + cp mod 0x40]
      else [0xF0 + cp div 0x40000, 0x80 + (cp div 0x1000) mod 0x40,
            0x80 + (cp div 0x40) mod 0x40, 0x80 + cp mod 0x40])"

fun encodeURIComponent :: "jsstring \<Rightarrow> js_error + jsstring" where
  "encodeURIComponent [] = Inr []"
| "encodeURIComponent (c # cs) =
     (if uriUnreserved c then map_sum id ((#) c) (encodeURIComponent cs)
      else if 0xDC00 \<le> c \<and> c \<le> 0xDFFF then Inl URIError
      else if 0xD800 \<le> c \<and> c \<le> 0xDBFF
      then (case cs of
              [] \<Rightarrow> Inl URIError
            | d # ds \<Rightarrow>
                if 0xDC00 \<le> d \<and> d \<le> 0xDFFF
                then map_sum id
                       ((@) (concat (map percentEscape
                          (utf8 ((c - 0xD800) * 0x400 + (d - 0xDC00) + 0x10000)))))
                       (encodeURIComponent ds)
                else Inl URIError)
      else map_sum id ((@) (concat (map percentEscape (utf8 c)))) (encodeURIComponent cs))"

text \<open>The payload of a block, one constructor for each \<open>type\<close> the renderer or the
  assembler names; \<open>Unsupported t\<close> is a block of any other type \<open>t\<close>.\<close>

datatype icon = EmojiIcon jsstring | OtherIcon

datatype image_source = ExternalImage jsstring | FileImage jsstring

text \<open>A media payload as \<open>renderFileBlock\<close> reads it: the \<open>type\<close> with the optional
  url behind it, and the optional caption.\<close>

datatype file_source = ExternalSource "jsstring option" | FileSource "jsstring option" | OtherSource

record file_ref =
  source :: file_source
  caption :: "rich_text_item list option"

datatype block_payload =
    Paragraph "rich_text_item list"
  | Heading_1 "rich_text_item list"
  | Heading_2 "rich_text_item list"
  | Heading_3 "rich_text_item list"
  | Bulleted_list_item "rich_text_item list"
  | Numbered_list_item "rich_text_item list"
  | To_do "rich_text_item list" bool
  | Code_block "rich_text_item list" "rich_text_item list" jsstring
  | Quote "rich_text_item list"
  | Callout "icon option" "rich_text_item list"
  | Divider
  | Image image_source "rich_text_item list"
  | Video file_ref
  | Audio file_ref
  | File_block file_ref
  | Pdf file_ref
  | Bookmark jsstring "rich_text_item list"
  | Embed jsstring "rich_text_item list"
  | Link_preview jsstring
  | Toggle "rich_text_item list"
  | Equation_block jsstring
  | Table
  | Table_row "rich_text_item list list"
  | Table_of_contents
  | Breadcrumb
  | Column_list
  | Column
  | Child_page jsstring
  | Child_database jsstring
  | Synced_block
  | Unsupported jsstring

text \<open>\<open>BlockWithChildren\<close>: the block object with its id and the fetched children.\<close>

datatype block = Block (block_id: jsstring) (payload: block_payload) (children: "block list")

text \<open>The \<open>type\<close> field of a block.\<close>

fun payload_type :: "block_payload \<Rightarrow> jsstring" where
  "payload_type (Paragraph _) = lit ''paragraph''"
| "payload_type (Heading_1 _) = lit ''heading_1''"
| "payload_type (Heading_2 _) = lit ''heading_2''"
| "payload_type (Heading_3 _) = lit ''heading_3''"
| "payload_type (Bulleted_list_item _) = lit ''bulleted_list_item''"
| "payload_type (Numbered_list_item _) = lit ''numbered_list_item''"
| "payload_type (To_do _ _) = lit ''to_do''"
| "payload_type (Code_block _ _ _) = lit ''code''"
| "payload_type (Quote _) = lit ''quote''"
| "payload_type (Callout _ _) = lit ''callout''"
| "payload_type Divider = lit ''divider''"
| "payload_type (Image _ _) = lit ''image''"
| "payload_type (Video _) = lit ''video''"
| "payload_type (Audio _) = lit ''audio''"
| "payload_type (File_block _) = lit ''file''"
| "payload_type (Pdf _) = lit ''pdf''"
| "payload_type (Bookmark _ _) = lit ''bookmark''"
| "payload_type (Embed _ _) = lit ''embed''"
| "payload_type (Link_preview _) = lit ''link_preview''"
| "payload_type (Toggle _) = lit ''toggle''"
| "payload_type (Equation_block _) = lit ''equation''"
| "payload_type Table = lit ''table''"
| "payload_type (Table_row _) = lit ''table_row''"
| "payload_type Table_of_contents = lit ''table_of_contents''"
| "payload_type Breadcrumb = lit ''breadcrumb''"
| "payload_type Column_list = lit ''column_list''"
| "payload_type Column = lit ''column''"
| "payload_type (Child_page _) = lit ''child_page''"
| "payload_type (Child_database _) = lit ''child_database''"
| "payload_type Synced_block = lit ''synced_block''"
| "payload_type (Unsupported t) = t"

definition block_type :: "block \<Rightarrow> jsstring" where
  "block_type b = payload_type (payload b)"


definition renderIcon :: "icon option \<Rightarrow> jsstring" where
  "renderIcon ic =
     (case ic of
        None \<Rightarrow> []
      | Some (EmojiIcon emoji) \<Rightarrow> emoji @ lit '' ''
      | Some OtherIcon \<Rightarrow> [])"

definition renderImage :: "image_source \<Rightarrow> rich_text_item list \<Rightarrow> jsstring" where
  "renderImage src cap =
     (let url = (case src of ExternalImage u \<Rightarrow> u | FileImage u \<Rightarrow> u)
      in lit ''!['' @ renderRichText cap @ lit ''](''  @ url @ lit '')'')"

text \<open>\<open>a || b\<close> on strings.\<close>

definition or_else :: "jsstring \<Rightarrow> jsstring \<Rightarrow> jsstring" where
  "or_else a b = (if a \<noteq> [] then a else b)"

definition renderFileBlock :: "file_ref \<Rightarrow> jsstring \<Rightarrow> jsstring" where
  "renderFileBlock file label =
     (let cap = (case caption file of Some c \<Rightarrow> renderRichText c | None \<Rightarrow> []);
          url = (case source file of
                   ExternalSource u \<Rightarrow> (case u of Some x \<Rightarrow> x | None \<Rightarrow> [])
                 | FileSource u \<Rightarrow> (case u of Some x \<Rightarrow> x | None \<Rightarrow> [])
                 | OtherSource \<Rightarrow> []);
          display = or_else cap label
      in if url \<noteq> [] then lit ''['' @ display @ lit ''](''  @ url @ lit '')'' else display)"

text \<open>\<open>replace(/\|/g, "\\|")\<close>.\<close>

definition escapePipes :: "jsstring \<Rightarrow> jsstring" where
  "escapePipes s = concat (map (\<lambda>c. if c = 0x7C then [0x5C, 0x7C] else [c]) s)"

text \<open>The loop of \<open>renderTable\<close> from index \<open>i\<close> on: the lines it pushes.\<close>

fun renderTableRows :: "nat \<Rightarrow> block list \<Rightarrow> jsstring list" where
  "renderTableRows i [] = []"
| "renderTableRows i (row # rows) =
     (case payload row of
        Table_row cells0 \<Rightarrow>
          (let cells = map (\<lambda>cell. escapePipes (renderRichText cell)) cells0;
               line = lit ''| '' @ join (lit '' | '') cells @ lit '' |'';
               sep = lit ''| '' @ join (lit '' | '') (map (\<lambda>_. lit ''---'') cells) @ lit '' |''
           in (if i = 0 then [line, sep] else [line]) @ renderTableRows (Suc i) rows)
      | _ \<Rightarrow> renderTableRows (Suc i) rows)"

definition renderTable :: "block \<Rightarrow> jsstring" where
  "renderTable b =
     (let rows = children b
      in if rows = [] then [] else join [0x0A] (renderTableRows 0 rows))"

definition renderBlock :: "block \<Rightarrow> js_error + jsstring" where
  "renderBlock b =
     (case payload b of
        Paragraph rt \<Rightarrow> Inr (renderRichText rt)
      | Heading_1 rt \<Rightarrow> Inr (lit ''# '' @ renderRichText rt)
      | Heading_2 rt \<Rightarrow> Inr (lit ''## '' @ renderRichText rt)
      | Heading_3 rt \<Rightarrow> Inr (lit ''### '' @ renderRichText rt)
      | Bulleted_list_item rt \<Rightarrow> Inr (lit ''- '' @ renderRichText rt)
      | Numbered_list_item rt \<Rightarrow> Inr (lit ''1. '' @ renderRichText rt)
      | To_do rt checked \<Rightarrow>
          Inr (lit ''- '' @ (if checked then lit ''[x]'' else lit ''[ ]'') @ lit '' ''
               @ renderRichText rt)
      | Code_block rt cap language \<Rightarrow>
          (let lang = (if language \<noteq> lit ''plain text'' then language else []);
               result = replicate 3 0x60 @ lang @ [0x0A] @ renderRichText rt @ [0x0A]
                        @ replicate 3 0x60
           in Inr (if renderRichText cap \<noteq> []
                   then result @ [0x0A] @ lit ''*'' @ renderRichText cap @ lit ''*''
                   else result))
      | Quote rt \<Rightarrow>
          Inr (join [0x0A] (map (\<lambda>line. lit ''> '' @ line) (split 0x0A (renderRichText rt))))
      | Callout ic rt \<Rightarrow> Inr (lit ''> '' @ renderIcon ic @ renderRichText rt)
      | Divider \<Rightarrow> Inr (lit ''---'')
      | Image src cap \<Rightarrow> Inr (renderImage src cap)
      | Video f \<Rightarrow> Inr (renderFileBlock f (lit ''video''))
      | Audio f \<Rightarrow> Inr (renderFileBlock f (lit ''audio''))
      | File_block f \<Rightarrow> Inr (renderFileBlock f (lit ''file''))
      | Pdf f \<Rightarrow> Inr (renderFileBlock f (lit ''pdf''))
      | Bookmark url cap \<Rightarrow>
          Inr (lit ''['' @ or_else (renderRichText cap) url @ lit ''](''  @ url @ lit '')'')
      | Embed url cap \<Rightarrow>
          Inr (lit ''['' @ or_else (renderRichText cap) (lit ''embed'') @ lit ''](''  @ url
               @ lit '')'')
      | Link_preview url \<Rightarrow> Inr (lit ''['' @ url @ lit ''](''  @ url @ lit '')'')
      | Toggle rt \<Rightarrow> Inr (lit ''**'' @ renderRichText rt @ lit ''**'')
      | Equation_block expression \<Rightarrow> Inr (lit ''$$'' @ [0x0A] @ expression @ [0x0A] @ lit ''$$'')
      | Table \<Rightarrow> Inr (renderTable b)
      | Table_of_contents \<Rightarrow> Inr (lit ''<!-- table of contents -->'')
      | Breadcrumb \<Rightarrow> Inr []
      | Column_list \<Rightarrow> Inr []
      | Column \<Rightarrow> Inr []
      | Child_page title \<Rightarrow>
          (case encodeURIComponent title of
             Inl e \<Rightarrow> Inl e
           | Inr enc \<Rightarrow> Inr (lit ''**['' @ title @ lit ''](./'' @ enc @ lit ''.md)**''))
      | Child_database title \<Rightarrow>
          (case encodeURIComponent title of
             Inl e \<Rightarrow> Inl e
           | Inr enc \<Rightarrow> Inr (lit ''**['' @ title @ lit ''](./'' @ enc @ lit ''/_index.csv)**''))
      | Synced_block \<Rightarrow> Inr []
      | Table_row _ \<Rightarrow> Inr (lit ''<!-- unsupported: '' @ block_type b @ lit '' -->'')
      | Unsupported _ \<Rightarrow> Inr (lit ''<!-- unsupported: '' @ block_type b @ lit '' -->''))"


section \<open>Document assembler (converters/markdown.ts)\<close>

text \<open>A page object as the assembler and the exporter read it. A property is the title
  property with its rich text, or a property of another type with a value the model
  leaves open.\<close>

datatype 'v property = TitleProperty "rich_text_item list" | OtherProperty jsstring 'v

record 'v page =
  page_id :: jsstring
  created_time :: jsstring
  last_edited_time :: jsstring
  properties :: "(jsstring \<times> 'v property) list"









section \<open>Table exporter (converters/csv.ts)\<close>

text \<open>The value of a \<open>PropertySchema\<close> entry; the schema itself is a \<open>Map\<close>, modelled as
  the list of its entries in iteration order.\<close>

record prop_meta =
  meta_id :: jsstring
  meta_type :: jsstring
  meta_name :: jsstring

type_synonym property_schema = "(jsstring \<times> prop_meta) list"

text \<open>\<open>Array.prototype.sort\<close> with a comparator: a stable sort. \<open>insertWith\<close> puts an
  element before the first one it compares below.\<close>

fun insertWith :: "('a \<Rightarrow> 'a \<Rightarrow> int) \<Rightarrow> 'a \<Rightarrow> 'a list \<Rightarrow> 'a list" where
  "insertWith cmp x [] = [x]"
| "insertWith cmp x (y # ys) = (if cmp x y < 0 then x # y # ys else y # insertWith cmp x ys)"

definition sortWith :: "('a \<Rightarrow> 'a \<Rightarrow> int) \<Rightarrow> 'a list \<Rightarrow> 'a list" where
  "sortWith cmp xs = foldl (\<lambda>acc x. insertWith cmp x acc) [] xs"

text \<open>The loop of \<open>sortColumns\<close>: the last title-typed name seen and the other names in
  order.\<close>

fun scanColumns ::
    "jsstring option \<times> jsstring list \<Rightarrow> property_schema \<Rightarrow> jsstring option \<times> jsstring list" where
  "scanColumns (titleCol, others) [] = (titleCol, others)"
| "scanColumns (titleCol, others) ((name, meta) # rest) =
     (if meta_type meta = lit ''title'' then scanColumns (Some name, others) rest
      else scanColumns (titleCol, others @ [name]) rest)"

text \<open>\<open>localeCompare\<close> is the platform's collation, a parameter of the model.\<close>

definition sortColumns :: "(jsstring \<Rightarrow> jsstring \<Rightarrow> int) \<Rightarrow> property_schema \<Rightarrow> jsstring list" where
  "sortColumns localeCompare schema =
     (case scanColumns (None, []) schema of
        (titleCol, others) \<Rightarrow>
          (let sorted = sortWith localeCompare others
           in if truthy titleCol then the titleCol # sorted else sorted))"

definition escapeField :: "jsstring \<Rightarrow> jsstring" where
  "escapeField v =
     (if 0x2C \<in> set v \<or> 0x0A \<in> set v \<or> 0x0D \<in> set v \<or> 0x22 \<in> set v
      then [0x22] @ concat (map (\<lambda>c. if c = 0x22 then [0x22, 0x22] else [c]) v) @ [0x22]
      else v)"

text \<open>The array \<open>lines\<close> of \<open>entriesToCsv\<close>. \<open>extractPropertyValue\<close> (notion/databases.ts)
  turns a property into the text of its cell; it is a parameter here.\<close>

definition csvLines ::
    "(jsstring \<Rightarrow> jsstring \<Rightarrow> int) \<Rightarrow> ('v property \<Rightarrow> jsstring) \<Rightarrow> 'v page list \<Rightarrow> property_schema
      \<Rightarrow> jsstring list" where
  "csvLines localeCompare extractPropertyValue entries schema =
     (let columns = sortColumns localeCompare schema
      in join (lit '','') (map escapeField columns)
         # map (\<lambda>entry.
                  join (lit '','')
                    (map (\<lambda>colName.
                            case map_of (properties entry) colName of
                              None \<Rightarrow> []
                            | Some prop \<Rightarrow> escapeField (extractPropertyValue prop))
                       columns))
             entries)"


text \<open>The comparison of two strings by code units, one possible \<open>localeCompare\<close>.\<close>

fun codeUnitCompare :: "jsstring \<Rightarrow> jsstring \<Rightarrow> int" where
  "codeUnitCompare [] [] = 0"
| "codeUnitCompare [] (y # ys) = - 1"
| "codeUnitCompare (x # xs) [] = 1"
| "codeUnitCompare (x # xs) (y # ys) =
     (if x < y then - 1 else if y < x then 1 else codeUnitCompare xs ys)"

section \<open>Traversal orchestrator (run.ts)\<close>

text \<open>A property of a data source schema: a relation with the id of its target
  database, or a property of another type.\<close>

datatype ds_property = RelationProperty jsstring | PlainProperty jsstring



text \<open>\<open>DatabaseData\<close>: the title of the database object, the properties of the data
  source, the property schema and the entries.\<close>

record 'v database_data =
  database_title :: "rich_text_item list"
  dataSource :: "(jsstring \<times> ds_property) list"
  propertySchema :: property_schema
  entries :: "'v page list"


text \<open>A run fails when a call of the gateway fails or when rendering throws.\<close>

datatype run_error = RemoteError jsstring | RenderError js_error

text \<open>The collaborators of the orchestrator: the three fetch operations of the gateway,
  each returning its fully fetched result or failing, the same id giving the same answer
  throughout a run; and the functions the model takes as parameters, \<open>sanitizeFilename\<close>
  (output/writer.ts), the platform's \<open>localeCompare\<close> and \<open>extractPropertyValue\<close>
  (notion/databases.ts).\<close>

record 'v client =
  fetchPage :: "jsstring \<Rightarrow> run_error + 'v page"
  fetchBlockChildren :: "jsstring \<Rightarrow> run_error + block list"
  fetchDatabase :: "jsstring \<Rightarrow> run_error + 'v database_data"
  sanitizeFilename :: "jsstring \<Rightarrow> jsstring"
  localeCompare :: "jsstring \<Rightarrow> jsstring \<Rightarrow> int"
  extractPropertyValue :: "'v property \<Rightarrow> jsstring"

















section \<open>The specification's wording of the formatting rules\<close>

text \<open>The annotation order of the specification: inline code alone, or else
  strikethrough, then emphasis, then underline.\<close>

definition spec_strikethrough :: "annotations \<Rightarrow> jsstring \<Rightarrow> jsstring" where
  "spec_strikethrough ann t = (if strikethrough ann then lit ''~~'' @ t @ lit ''~~'' else t)"

definition spec_emphasis :: "annotations \<Rightarrow> jsstring \<Rightarrow> jsstring" where
  "spec_emphasis ann t =
     (if bold ann \<and> italic ann then lit ''***'' @ t @ lit ''***''
      else if bold ann then lit ''**'' @ t @ lit ''**''
      else if italic ann then lit ''*'' @ t @ lit ''*''
      else t)"

definition spec_underline :: "annotations \<Rightarrow> jsstring \<Rightarrow> jsstring" where
  "spec_underline ann t = (if underline ann then lit ''<u>'' @ t @ lit ''</u>'' else t)"

definition spec_annotate :: "annotations \<Rightarrow> jsstring \<Rightarrow> jsstring" where
  "spec_annotate ann t =
     (if code ann then [0x60] @ t @ [0x60]
      else spec_underline ann (spec_emphasis ann (spec_strikethrough ann t)))"

text \<open>The link wrapping of the specification, for a span with the hyperlink target
  \<open>h\<close>.\<close>

definition spec_link :: "jsstring \<Rightarrow> jsstring \<Rightarrow> jsstring" where
  "spec_link h t = lit ''['' @ t @ lit ''](''  @ h @ lit '')''"



text \<open>A comparator that orders its arguments consistently, as the specification of
  \<open>Array.prototype.sort\<close> requires for a defined result.\<close>

definition consistentComparator :: "('a \<Rightarrow> 'a \<Rightarrow> int) \<Rightarrow> bool" where
  "consistentComparator cmp =
     ((\<forall>a b. cmp a b < 0 \<longleftrightarrow> 0 < cmp b a)
      \<and> (\<forall>a b c. cmp a b \<le> 0 \<and> cmp b c \<le> 0 \<longrightarrow> cmp a c \<le> 0))"

text \<open>The names of the title-typed and of the other properties of a schema.\<close>

definition titleNames :: "property_schema \<Rightarrow> jsstring list" where
  "titleNames schema = map fst (filter (\<lambda>(name, meta). meta_type meta = lit ''title'') schema)"

definition otherNames :: "property_schema \<Rightarrow> jsstring list" where
  "otherNames schema = map fst (filter (\<lambda>(name, meta). meta_type meta \<noteq> lit ''title'') schema)"





section \<open>Properties of the reference normalizer\<close>

lemma parse_bare_upper:
  "parseNotionReference newURL (lit ''ABCDEF0123456789ABCDEF0123456789'')
     = Inr (lit ''ABCDEF01-2345-6789-ABCD-EF0123456789'')"
proof -
  have a: "trim (lit ''ABCDEF0123456789ABCDEF0123456789'')
             = lit ''ABCDEF0123456789ABCDEF0123456789''"
    by (simp add: trim_def trimEnd_def isWhiteSpace_def lit_def)
  have b: "UUID_BARE (lit ''ABCDEF0123456789ABCDEF0123456789'')"
    by (simp add: UUID_BARE_def isHex_def lit_def)
  have c: "toDashedUuid (lit ''ABCDEF0123456789ABCDEF0123456789'')
             = lit ''ABCDEF01-2345-6789-ABCD-EF0123456789''"
    by (simp add: toDashedUuid_def slice_def lit_def)
  show ?thesis
    by (simp only: parseNotionReference_def Let_def a b c if_True)
qed

lemma parse_dashed_upper:
  "parseNotionReference newURL (toDashedUuid (lit ''ABCDEF0123456789ABCDEF0123456789''))
     = Inr (lit ''abcdef01-2345-6789-abcd-ef0123456789'')"
proof -
  have c: "toDashedUuid (lit ''ABCDEF0123456789ABCDEF0123456789'')
             = lit ''ABCDEF01-2345-6789-ABCD-EF0123456789''"
    by (simp add: toDashedUuid_def slice_def lit_def)
  have a: "trim (lit ''ABCDEF01-2345-6789-ABCD-EF0123456789'')
             = lit ''ABCDEF01-2345-6789-ABCD-EF0123456789''"
    by (simp add: trim_def trimEnd_def isWhiteSpace_def lit_def)
  have b: "\<not> UUID_BARE (lit ''ABCDEF01-2345-6789-ABCD-EF0123456789'')"
    by (simp add: UUID_BARE_def isHex_def lit_def)
  have d: "UUID_DASHED (lit ''ABCDEF01-2345-6789-ABCD-EF0123456789'')"
    by (simp add: UUID_DASHED_def isHex_def lit_def)
  have e: "toLowerCase (lit ''ABCDEF01-2345-6789-ABCD-EF0123456789'')
             = lit ''abcdef01-2345-6789-abcd-ef0123456789''"
    by (simp add: toLowerCase_def lit_def)
  show ?thesis
    by (simp only: parseNotionReference_def Let_def a b c d e if_True if_False)
qed

lemma trim_id:
  assumes "s \<noteq> []" and "\<not> isWhiteSpace (hd s)" and "\<not> isWhiteSpace (last s)"
  shows "trim s = s"
proof -
  from assms(1,2) have a: "dropWhile isWhiteSpace s = s" by (cases s) auto
  from assms(1,3) have "dropWhile isWhiteSpace (rev s) = rev s"
    by (cases "rev s") (auto simp: hd_rev)
  then show ?thesis by (simp add: trim_def trimEnd_def a)
qed

lemma isHex_not_space: "isHex c \<Longrightarrow> \<not> isWhiteSpace c"
  by (auto simp: isHex_def isWhiteSpace_def)

lemma matches_Hex_append:
  "length a = n \<Longrightarrow> list_all isHex a \<Longrightarrow> matches (Hex n # p) (a @ r) = matches p r"
  by simp

lemma UUID_BARE_iff: "UUID_BARE h \<longleftrightarrow> length h = 32 \<and> list_all isHex h"
  by (auto simp: UUID_BARE_def)

lemma toDashedUuid_shape:
  assumes "length h = 32"
  shows "toDashedUuid h = take 8 h @ [0x2D] @ take 4 (drop 8 h) @ [0x2D] @ take 4 (drop 12 h)
           @ [0x2D] @ take 4 (drop 16 h) @ [0x2D] @ drop 20 h"
  using assms by (simp add: toDashedUuid_def slice_def lit_def)

text \<open>On a bare string without upper-case letters the two normalizations agree: both
  give the dashed form.\<close>

lemma parse_bare_lower_case:
  assumes bare: "UUID_BARE h" and lower: "\<forall>c\<in>set h. \<not> (0x41 \<le> c \<and> c \<le> 0x5A)"
  shows "parseNotionReference newURL h = Inr (toDashedUuid h)"
    and "parseNotionReference newURL (toDashedUuid h) = Inr (toDashedUuid h)"
proof -
  from bare have len: "length h = 32" and hex: "list_all isHex h" by (simp_all add: UUID_BARE_iff)
  from len have ne: "h \<noteq> []" by auto
  from hex ne have "isHex (hd h)" "isHex (last h)" by (auto simp: list_all_iff)
  then have sp: "\<not> isWhiteSpace (hd h)" "\<not> isWhiteSpace (last h)" by (auto dest: isHex_not_space)
  have t1: "trim h = h" using ne sp by (rule trim_id)
  show "parseNotionReference newURL h = Inr (toDashedUuid h)"
    by (simp add: parseNotionReference_def t1 bare)
  let ?d = "toDashedUuid h"
  note shape = toDashedUuid_shape [OF len]
  have hexes: "list_all isHex (take 8 h)" "list_all isHex (take 4 (drop 8 h))"
    "list_all isHex (take 4 (drop 12 h))" "list_all isHex (take 4 (drop 16 h))"
    "list_all isHex (drop 20 h)"
    using hex by (auto simp: list_all_iff dest: in_set_takeD in_set_dropD)
  have dlen: "length ?d = 36" using len by (simp add: shape)
  have nb: "\<not> UUID_BARE ?d" using dlen by (simp add: UUID_BARE_iff)
  have "matches [Hex 8, Dash, Hex 4, Dash, Hex 4, Dash, Hex 4, Dash, Hex 12] ?d"
    unfolding shape using hexes len
    by (simp add: matches_Hex_append del: matches.simps(2)) (simp add: matches_Hex_append [where r = "[]", simplified])
  then have dashed: "UUID_DASHED ?d" by (simp add: UUID_DASHED_def)
  have hd: "hd ?d = hd h" and lst: "last ?d = last h" using len ne
    by (simp_all add: shape hd_append last_drop)
  have dne: "?d \<noteq> []" using dlen by auto
  have t2: "trim ?d = ?d" using dne sp by (intro trim_id) (simp_all add: hd lst)
  have "set ?d \<subseteq> set h \<union> {0x2D}"
    unfolding shape by (auto dest: in_set_takeD in_set_dropD)
  with lower have "\<forall>c\<in>set ?d. \<not> (0x41 \<le> c \<and> c \<le> 0x5A)" by auto
  then have low: "toLowerCase ?d = ?d" by (simp add: toLowerCase_def map_idI)
  show "parseNotionReference newURL ?d = Inr ?d"
    by (simp add: parseNotionReference_def t2 nb dashed low)
qed

text \<open>
  C1. Normalizing a bare 32-character hexadecimal string and normalizing its dashed form
  should agree, the result being the lower-cased dashed UUID. At the upper-case string
  \<open>ABCDEF0123456789ABCDEF0123456789\<close> the bare branch keeps the letter case while the
  dashed branch lowers it, so the two results differ.
\<close>

theorem parseNotionReference_bare_keeps_case:
  "parseNotionReference newURL (lit ''ABCDEF0123456789ABCDEF0123456789'')
     = Inr (lit ''ABCDEF01-2345-6789-ABCD-EF0123456789'')
   \<and> parseNotionReference newURL (toDashedUuid (lit ''ABCDEF0123456789ABCDEF0123456789''))
     = Inr (lit ''abcdef01-2345-6789-abcd-ef0123456789'')
   \<and> parseNotionReference newURL (lit ''ABCDEF0123456789ABCDEF0123456789'')
     \<noteq> parseNotionReference newURL (toDashedUuid (lit ''ABCDEF0123456789ABCDEF0123456789''))"
  by (simp add: parse_bare_upper parse_dashed_upper) (simp add: lit_def)

section \<open>Properties of the block renderer\<close>

text \<open>
  C2, as amended. A breadcrumb, column-list, column or synced-block block renders as the
  empty string, whatever its id and children; a table-of-contents block renders as the
  comment \<open><!-- table of contents -->\<close>.
\<close>

theorem renderBlock_structural_kinds:
  "renderBlock (Block i Breadcrumb cs) = Inr []
   \<and> renderBlock (Block i Column_list cs) = Inr []
   \<and> renderBlock (Block i Column cs) = Inr []
   \<and> renderBlock (Block i Synced_block cs) = Inr []
   \<and> renderBlock (Block i Table_of_contents cs) = Inr (lit ''<!-- table of contents -->'')"
  by (simp add: renderBlock_def)

text \<open>
  C2, as stated, fails: the render of a table-of-contents block is not the empty string.
\<close>

theorem renderBlock_table_of_contents_not_empty:
  "renderBlock (Block [] Table_of_contents []) \<noteq> Inr []"
  by (simp add: renderBlock_def lit_def)



section \<open>Properties of the rich-text renderer\<close>

text \<open>
  C3. A date mention with an end bound should render as the start, a space, the arrow
  U+2192, a space and the end. At the range from 2024-01-01 to 2024-01-31 the renderer
  puts the three code units U+00E2, U+2020, U+2019 where the arrow should be.
\<close>

theorem renderMention_date_range_separator:
  "renderMention
     \<lparr>item_type = MentionItem (DateMention (lit ''2024-01-01'') (Some (lit ''2024-01-31''))),
      annotations = \<lparr>bold = False, italic = False, strikethrough = False, underline = False,
                     code = False, color = lit ''default''\<rparr>,
      plain_text = lit ''2024-01-01 to 2024-01-31'', href = None\<rparr>
     = lit ''2024-01-01 '' @ [0xE2, 0x2020, 0x2019] @ lit '' 2024-01-31''
   \<and> renderRichTextItem
     \<lparr>item_type = MentionItem (DateMention (lit ''2024-01-01'') (Some (lit ''2024-01-31''))),
      annotations = \<lparr>bold = False, italic = False, strikethrough = False, underline = False,
                     code = False, color = lit ''default''\<rparr>,
      plain_text = lit ''2024-01-01 to 2024-01-31'', href = None\<rparr>
     \<noteq> lit ''2024-01-01 '' @ [0x2192] @ lit '' 2024-01-31''"
  by (simp add: renderMention_def renderRichTextItem_def applyAnnotations_def truthy_def lit_def)

text \<open>The render of a date mention in general: the start alone when the end is null or
  empty, else the start, the separator and the end.\<close>

lemma renderMention_date:
  "item_type item = MentionItem (DateMention start end_bound) \<Longrightarrow>
   renderMention item =
     (if truthy end_bound
      then start @ lit '' '' @ [0xE2, 0x2020, 0x2019] @ lit '' '' @ the end_bound
      else start)"
  by (simp add: renderMention_def)

lemma applyAnnotations_spec:
  "t \<noteq> [] \<Longrightarrow> applyAnnotations t ann = spec_annotate ann t"
  by (simp add: applyAnnotations_def spec_annotate_def spec_underline_def spec_emphasis_def
      spec_strikethrough_def Let_def)

text \<open>
  C4, as amended. For a span of literal-text or mention type whose content is not empty,
  the render is the content annotated in the order of the specification (inline code
  alone, or else strikethrough, then emphasis, then underline), and wrapped as a link
  last when the span has a non-empty hyperlink target.
\<close>

theorem renderRichTextItem_annotation_order:
  assumes "item_type item = TextItem content
           \<or> (\<exists>m. item_type item = MentionItem m \<and> content = renderMention item)"
    and "content \<noteq> []"
  shows "renderRichTextItem item =
           (case href item of
              None \<Rightarrow> spec_annotate (annotations item) content
            | Some h \<Rightarrow>
                if h = [] then spec_annotate (annotations item) content
                else spec_link h (spec_annotate (annotations item) content))"
  using assms
  by (auto simp: renderRichTextItem_def applyAnnotations_spec truthy_def spec_link_def Let_def
           split: option.splits)

theorem renderRichTextItem_annotation_order_witness:
  "renderRichTextItem
     \<lparr>item_type = TextItem (lit ''hi''),
      annotations = \<lparr>bold = True, italic = True, strikethrough = True, underline = True,
                     code = False, color = lit ''default''\<rparr>,
      plain_text = lit ''hi'', href = Some (lit ''https://a.b'')\<rparr>
   = lit ''[<u>***~~hi~~***</u>](https://a.b)''"
  using renderRichTextItem_annotation_order
    [of "\<lparr>item_type = TextItem (lit ''hi''),
      annotations = \<lparr>bold = True, italic = True, strikethrough = True, underline = True,
                     code = False, color = lit ''default''\<rparr>,
      plain_text = lit ''hi'', href = Some (lit ''https://a.b'')\<rparr>" "lit ''hi''"]
  by (simp add: spec_annotate_def spec_underline_def spec_emphasis_def
      spec_strikethrough_def spec_link_def lit_def)

text \<open>
  C4, as stated, fails: a span with empty content and the code flag does not render as a
  pair of backticks.
\<close>

theorem renderRichTextItem_empty_code_span:
  "renderRichTextItem
     \<lparr>item_type = TextItem [],
      annotations = \<lparr>bold = False, italic = False, strikethrough = False, underline = False,
                     code = True, color = lit ''default''\<rparr>,
      plain_text = [], href = None\<rparr>
   \<noteq> [0x60] @ [] @ [0x60]"
  by (simp add: renderRichTextItem_def applyAnnotations_def truthy_def)

text \<open>
  C10. For a span of literal-text or mention type whose content is empty, the annotated
  text is empty whatever the flags, and the render is \<open>[](href)\<close> when the span has a
  hyperlink target and empty otherwise.
\<close>

theorem renderRichTextItem_empty_content:
  assumes "item_type item = TextItem []
           \<or> (\<exists>m. item_type item = MentionItem m \<and> renderMention item = [])"
  shows "applyAnnotations [] (annotations item) = []
         \<and> renderRichTextItem item =
             (if truthy (href item) then lit ''[]('' @ the (href item) @ lit '')'' else [])"
  using assms
  by (auto simp: renderRichTextItem_def applyAnnotations_def lit_def)

theorem renderRichTextItem_empty_content_witness:
  "renderRichTextItem
     \<lparr>item_type = TextItem [],
      annotations = \<lparr>bold = True, italic = True, strikethrough = True, underline = True,
                     code = True, color = lit ''default''\<rparr>,
      plain_text = [], href = Some (lit ''https://a.b'')\<rparr>
   = lit ''[](https://a.b)''"
  using renderRichTextItem_empty_content
    [of "\<lparr>item_type = TextItem [],
      annotations = \<lparr>bold = True, italic = True, strikethrough = True, underline = True,
                     code = True, color = lit ''default''\<rparr>,
      plain_text = [], href = Some (lit ''https://a.b'')\<rparr>"]
  by (simp add: truthy_def lit_def)

section \<open>Properties of the table exporter\<close>

lemma mset_insertWith: "mset (insertWith cmp x xs) = add_mset x (mset xs)"
  by (induction xs) auto

lemma set_insertWith: "set (insertWith cmp x xs) = insert x (set xs)"
  by (induction xs) auto

lemma sorted_insertWith:
  assumes "consistentComparator cmp" and "sorted_wrt (\<lambda>a b. cmp a b \<le> 0) xs"
  shows "sorted_wrt (\<lambda>a b. cmp a b \<le> 0) (insertWith cmp x xs)"
  using assms(2)
proof (induction xs)
  case Nil
  then show ?case by simp
next
  case (Cons y ys)
  have anti: "\<And>a b. \<not> cmp a b < 0 \<Longrightarrow> cmp b a \<le> 0"
    using assms(1) unfolding consistentComparator_def by (metis not_le)
  have trans: "\<And>a b c. cmp a b \<le> 0 \<Longrightarrow> cmp b c \<le> 0 \<Longrightarrow> cmp a c \<le> 0"
    using assms(1) unfolding consistentComparator_def by blast
  show ?case
  proof (cases "cmp x y < 0")
    case True
    then have "cmp x y \<le> 0" by simp
    with Cons.prems trans have "\<forall>z\<in>set ys. cmp x z \<le> 0" by auto
    with True Cons.prems show ?thesis by auto
  next
    case False
    then have "cmp y x \<le> 0" by (rule anti)
    with False Cons show ?thesis by (auto simp: set_insertWith)
  qed
qed

lemma foldl_insertWith_mset:
  "mset (foldl (\<lambda>acc x. insertWith cmp x acc) acc xs) = mset acc + mset xs"
  by (induction xs arbitrary: acc) (auto simp: mset_insertWith)

lemma foldl_insertWith_sorted:
  "consistentComparator cmp \<Longrightarrow> sorted_wrt (\<lambda>a b. cmp a b \<le> 0) acc \<Longrightarrow>
   sorted_wrt (\<lambda>a b. cmp a b \<le> 0) (foldl (\<lambda>acc x. insertWith cmp x acc) acc xs)"
  by (induction xs arbitrary: acc) (auto simp: sorted_insertWith)

lemma mset_sortWith: "mset (sortWith cmp xs) = mset xs"
  by (simp add: sortWith_def foldl_insertWith_mset)

lemma sorted_sortWith:
  "consistentComparator cmp \<Longrightarrow> sorted_wrt (\<lambda>a b. cmp a b \<le> 0) (sortWith cmp xs)"
  by (simp add: sortWith_def foldl_insertWith_sorted)

lemma scanColumns_eq:
  "scanColumns (t, os) schema =
     (if titleNames schema = [] then t else Some (last (titleNames schema)),
      os @ otherNames schema)"
  by (induction schema arbitrary: t os) (auto simp: titleNames_def otherNames_def)

lemma sortColumns_eq:
  "sortColumns cmp schema =
     (if titleNames schema \<noteq> [] \<and> last (titleNames schema) \<noteq> []
      then last (titleNames schema) # sortWith cmp (otherNames schema)
      else sortWith cmp (otherNames schema))"
  by (simp add: sortColumns_def scanColumns_eq truthy_def)

text \<open>When the schema has one title-typed property and its name is not empty, the
  columns are that name followed by a sorted arrangement of the other names.\<close>

lemma sortColumns_title_first:
  assumes "titleNames schema = [t]" and "t \<noteq> []"
  shows "\<exists>rest. sortColumns cmp schema = t # rest \<and> mset rest = mset (otherNames schema)
           \<and> (consistentComparator cmp \<longrightarrow> sorted_wrt (\<lambda>a b. cmp a b \<le> 0) rest)"
  using assms by (simp add: sortColumns_eq mset_sortWith sorted_sortWith)

lemma sortColumns_no_title:
  assumes "titleNames schema = []"
  shows "mset (sortColumns cmp schema) = mset (otherNames schema)
           \<and> (consistentComparator cmp \<longrightarrow> sorted_wrt (\<lambda>a b. cmp a b \<le> 0) (sortColumns cmp schema))"
  using assms by (simp add: sortColumns_eq mset_sortWith sorted_sortWith)

text \<open>The header row is the first line: the escaped column names joined by commas.\<close>

lemma csv_header: "hd (csvLines cmp ex rows schema) = join (lit '','') (map escapeField (sortColumns cmp schema))"
  by (simp add: csvLines_def Let_def)

lemma mset_pair_cases:
  assumes "mset xs = {#a, b#}"
  shows "xs = [a, b] \<or> xs = [b, a]"
proof -
  from arg_cong [OF assms, of size] have "length xs = 2" by simp
  then obtain x y where xs: "xs = [x, y]"
    by (auto simp: length_Suc_conv numeral_2_eq_2)
  with assms have "{#x, y#} = {#a, b#}" by simp
  then show ?thesis unfolding xs by (auto simp: add_eq_conv_ex)
qed

lemma sortColumns_example:
  assumes lt: "cmp (lit ''Apple'') (lit ''Zebra'') < 0"
    and ge: "\<not> cmp (lit ''Zebra'') (lit ''Apple'') < 0"
    and perm: "mset schema =
      mset [(lit ''Name'', \<lparr>meta_id = i1, meta_type = lit ''title'', meta_name = lit ''Name''\<rparr>),
            (lit ''Zebra'', \<lparr>meta_id = i2, meta_type = lit ''rich_text'', meta_name = lit ''Zebra''\<rparr>),
            (lit ''Apple'', \<lparr>meta_id = i3, meta_type = lit ''rich_text'', meta_name = lit ''Apple''\<rparr>)]"
  shows "sortColumns cmp schema = [lit ''Name'', lit ''Apple'', lit ''Zebra'']"
proof -
  have ne: "lit ''rich_text'' \<noteq> lit ''title''" by (simp add: lit_def)
  have "mset (titleNames schema) = {#lit ''Name''#}"
    unfolding titleNames_def mset_map mset_filter perm using ne by simp
  then have t: "titleNames schema = [lit ''Name'']" by simp
  have "mset (otherNames schema) = {#lit ''Zebra'', lit ''Apple''#}"
    unfolding otherNames_def mset_map mset_filter perm using ne by simp
  then have "otherNames schema = [lit ''Zebra'', lit ''Apple'']
             \<or> otherNames schema = [lit ''Apple'', lit ''Zebra'']"
    by (rule mset_pair_cases)
  then have "sortWith cmp (otherNames schema) = [lit ''Apple'', lit ''Zebra'']"
    using lt ge by (auto simp: sortWith_def)
  moreover have "lit ''Name'' \<noteq> []" by (simp add: lit_def)
  ultimately show ?thesis by (simp add: sortColumns_eq t)
qed

lemma sortColumns_example_code_units:
  "sortColumns codeUnitCompare
      [(lit ''Zebra'', \<lparr>meta_id = [], meta_type = lit ''rich_text'', meta_name = lit ''Zebra''\<rparr>),
       (lit ''Apple'', \<lparr>meta_id = [], meta_type = lit ''rich_text'', meta_name = lit ''Apple''\<rparr>),
       (lit ''Name'', \<lparr>meta_id = [], meta_type = lit ''title'', meta_name = lit ''Name''\<rparr>)]
   = [lit ''Name'', lit ''Apple'', lit ''Zebra'']"
  by (rule sortColumns_example [where ?i1.0 = "[]" and ?i2.0 = "[]" and ?i3.0 = "[]"])
     (simp_all add: lit_def)

text \<open>
  C6. The header should list the title-typed property first whenever the schema has one.
  At the schema whose title-typed property has the empty name, followed by the text
  property \<open>Apple\<close>, the columns are \<open>Apple\<close> alone and so is the header row: the test
  \<open>titleCol ? ... : others\<close> takes the empty name for no title column.
\<close>

theorem sortColumns_drops_empty_title_name:
  "sortColumns cmp
     [([], \<lparr>meta_id = lit ''title'', meta_type = lit ''title'', meta_name = []\<rparr>),
      (lit ''Apple'', \<lparr>meta_id = lit ''a'', meta_type = lit ''rich_text'', meta_name = lit ''Apple''\<rparr>)]
     = [lit ''Apple'']
   \<and> hd (csvLines cmp ex rows
     [([], \<lparr>meta_id = lit ''title'', meta_type = lit ''title'', meta_name = []\<rparr>),
      (lit ''Apple'', \<lparr>meta_id = lit ''a'', meta_type = lit ''rich_text'', meta_name = lit ''Apple''\<rparr>)])
     = lit ''Apple''"
  by (simp add: csvLines_def Let_def sortColumns_def sortWith_def truthy_def escapeField_def lit_def)

section \<open>Properties of the document assembler\<close>
























section \<open>Properties of the traversal orchestrator\<close>






















end
